theory Spec2Isabelle
  imports Complex_Main "HOL-Library.Sublist"
begin

section \<open>Common conventions\<close>

text \<open>
  Python integers are unbounded and are modelled by \<open>int\<close>. Python floats are idealised
  as \<open>real\<close>: every float constant of the modelled functions is a small whole number
  and the properties below are about comparisons and branch structure, not rounding.
  Answers of the network, of the operating system and of the clock are inputs of the
  model. A Python dictionary whose iteration order matters is an association list in
  insertion order.
\<close>

text \<open>Python's \<open>max(xs)\<close> and \<open>min(xs)\<close> on a non-empty list; both raise on an empty
  one, and every caller below tests for emptiness first.\<close>

fun py_max :: "int list \<Rightarrow> int" where
  "py_max [] = 0"
| "py_max (x # xs) = fold max xs x"

fun py_min :: "int list \<Rightarrow> int" where
  "py_min [] = 0"
| "py_min (x # xs) = fold min xs x"

section \<open>Consistency analyzer of \<open>bin/blockchain_sync_verification_comprehensive.py\<close>\<close>

record SyncStatus =
  node_type :: string
  service_status :: string
  sync_status :: string
  sync_progress :: real
  current_block :: int
  highest_block :: int
  peer_count :: int
  cpu_usage :: real
  memory_usage :: real
  health_score :: real
  issues :: "string list"
  response_time :: real
  block_hash :: "string option"
  chain_id :: "int option"

text \<open>The texts returned by \<open>get_lagging_node_recommendation\<close>; the syncing one carries
  the progress that the source formats into the message.\<close>

datatype recommendation =
    ServiceNotRunning
  | LowPeerCount
  | HighCpuUsage
  | HighMemoryUsage
  | NodeIsSyncing real
  | NodeUnresponsive
  | InvestigateLogs

definition get_lagging_node_recommendation :: "SyncStatus \<Rightarrow> recommendation" where
  "get_lagging_node_recommendation status =
     (if service_status status \<noteq> ''active'' then ServiceNotRunning
      else if peer_count status < 5 then LowPeerCount
      else if cpu_usage status > 90 then HighCpuUsage
      else if memory_usage status > 30 then HighMemoryUsage
      else if sync_status status = ''syncing'' then NodeIsSyncing (sync_progress status)
      else if (\<exists>i \<in> set (issues status). sublist ''Error getting status'' i)
        then NodeUnresponsive
      else InvestigateLogs)"

record summary_report =
  s_network :: string
  s_total_nodes :: nat
  s_highest_block :: int
  s_lowest_block :: int
  s_block_difference :: int
  s_tolerance_blocks :: int
  s_consistent :: bool

record node_report =
  nr_current_block :: int
  nr_health_score :: real
  nr_sync_status :: string
  nr_sync_progress :: real
  nr_peer_count :: int
  nr_rpc_responsive :: bool
  nr_response_time :: real
  nr_lagging :: bool
  nr_blocks_behind :: int
  nr_issues :: "string list"
  nr_service_status :: string
  nr_block_hash :: "string option"
  nr_chain_id :: "int option"
  nr_recommendation :: "recommendation option"

record reference_report =
  external_block :: int
  local_max_diff :: int
  reference_consistent :: bool

datatype reorg_check =
    InsufficientData
  | HashComparison bool nat "(string \<times> int \<times> string) list"

text \<open>A hash is usable where Python's truth test accepts it: present and not empty.\<close>

fun truthy :: "string option \<Rightarrow> bool" where
  "truthy None = False"
| "truthy (Some h) = (h \<noteq> [])"

definition check_reorganizations :: "(string \<times> SyncStatus) list \<Rightarrow> reorg_check" where
  "check_reorganizations node_statuses =
     (let hash_comparison =
            [(k, current_block s, the (block_hash s)).
               (k, s) \<leftarrow> node_statuses, truthy (block_hash s) \<and> current_block s > 0]
      in if length hash_comparison < 2 then InsufficientData
         else let hashes = remdups (map (\<lambda>(k, b, h). h) hash_comparison)
              in HashComparison (length hashes = 1) (length hashes) hash_comparison)"

record consistency_results =
  summary :: summary_report
  nodes :: "(string \<times> node_report) list"
  reference :: "reference_report option"
  reorg :: "reorg_check option"

datatype analyzer_error = NoNodeStatus | NoValidBlocks

definition analyze_node :: "int \<Rightarrow> int \<Rightarrow> SyncStatus \<Rightarrow> node_report" where
  "analyze_node tolerance max_block status =
     (let block_diff_from_max = max_block - current_block status;
          is_lagging = block_diff_from_max > tolerance
      in \<lparr> nr_current_block = current_block status,
           nr_health_score = health_score status,
           nr_sync_status = sync_status status,
           nr_sync_progress = sync_progress status,
           nr_peer_count = peer_count status,
           nr_rpc_responsive = (response_time status > 0),
           nr_response_time = response_time status,
           nr_lagging = is_lagging,
           nr_blocks_behind = block_diff_from_max,
           nr_issues = issues status,
           nr_service_status = service_status status,
           nr_block_hash = block_hash status,
           nr_chain_id = chain_id status,
           nr_recommendation =
             (if is_lagging then Some (get_lagging_node_recommendation status) else None) \<rparr>)"

text \<open>
  \<open>verify_cross_node_consistency\<close>, from the point where the statuses of all node types
  have been gathered into the dictionary \<open>node_statuses\<close>. \<open>tolerance_blocks\<close> is the
  configuration value and \<open>reference_block\<close> the answer of the external reference
  (0 when there is none).
\<close>

definition verify_cross_node_consistency ::
  "int \<Rightarrow> string \<Rightarrow> (string \<times> SyncStatus) list \<Rightarrow> int \<Rightarrow> analyzer_error + consistency_results"
where
  "verify_cross_node_consistency tolerance_blocks network node_statuses reference_block =
     (if node_statuses = [] then Inl NoNodeStatus
      else
        let blocks = [current_block s. (k, s) \<leftarrow> node_statuses, current_block s > 0]
        in if blocks = [] then Inl NoValidBlocks
           else
             let max_block = py_max blocks;
                 min_block = py_min blocks;
                 block_diff = max_block - min_block
             in Inr \<lparr>
                  summary = \<lparr> s_network = network,
                              s_total_nodes = length node_statuses,
                              s_highest_block = max_block,
                              s_lowest_block = min_block,
                              s_block_difference = block_diff,
                              s_tolerance_blocks = tolerance_blocks,
                              s_consistent = (block_diff \<le> tolerance_blocks) \<rparr>,
                  nodes = map (\<lambda>(k, s). (k, analyze_node tolerance_blocks max_block s))
                              node_statuses,
                  reference =
                    (if reference_block > 0
                     then Some \<lparr> external_block = reference_block,
                                  local_max_diff = reference_block - max_block,
                                  reference_consistent = (reference_block - max_block \<le> 10) \<rparr>
                     else None),
                  reorg =
                    (if length (filter (\<lambda>(k, s). truthy (block_hash s)) node_statuses) > 1
                     then Some (check_reorganizations node_statuses)
                     else None) \<rparr>)"

section \<open>Consistency analyzer of \<open>scripts/monitoring/blockchain_sync_verification_advanced.py\<close>\<close>

record NodeInfo =
  name :: string
  client :: string
  status :: string
  ni_sync_progress :: "real option"
  ni_current_block :: "int option"
  ni_highest_block :: "int option"
  rpc_responsive :: bool
  peers :: int
  memory_mb :: real
  cpu_usage_percent :: real
  ni_health_score :: real

record lagging_node =
  ln_name :: string
  ln_block_number :: int
  ln_lag_blocks :: int
  ln_status :: string

record consistency_report =
  cr_network :: string
  cr_tolerance :: int
  cr_max_block :: int
  cr_min_block :: int
  cr_block_difference :: int
  nodes_consistent :: bool
  lagging_nodes :: "lagging_node list"
  analysis_status :: string

datatype validator_error = NoBlockData

text \<open>The dictionary \<open>block_numbers\<close>, with the status the source keeps beside each
  entry in \<open>node_statuses\<close>.\<close>

definition block_numbers_of :: "(string \<times> NodeInfo) list \<Rightarrow> (string \<times> int \<times> string) list" where
  "block_numbers_of ns =
     [(node_name, the (ni_current_block node), status node).
        (node_name, node) \<leftarrow> ns, ni_current_block node \<noteq> None]"

text \<open>The "analyze patterns" step at the end of \<open>validate_cross_node_consistency\<close>.\<close>

definition analyze_patterns :: "int \<Rightarrow> int \<Rightarrow> string" where
  "analyze_patterns block_diff tolerance =
     (if block_diff = 0 then ''perfect_consistency''
      else if block_diff \<le> tolerance then ''acceptable_consistency''
      else if block_diff \<le> 20 then ''minor_divergence''
      else ''major_divergence'')"

definition validate_cross_node_consistency ::
  "(string \<times> NodeInfo) list \<Rightarrow> string \<Rightarrow> int \<Rightarrow> validator_error + consistency_report"
where
  "validate_cross_node_consistency ns network tolerance =
     (let block_numbers = block_numbers_of ns
      in if block_numbers = [] then Inl NoBlockData
         else
           let vals = map (\<lambda>(n, b, st). b) block_numbers;
               max_block = py_max vals;
               min_block = py_min vals;
               block_diff = max_block - min_block
           in Inr \<lparr>
                cr_network = network,
                cr_tolerance = tolerance,
                cr_max_block = max_block,
                cr_min_block = min_block,
                cr_block_difference = block_diff,
                nodes_consistent = (block_diff \<le> tolerance),
                lagging_nodes =
                  [\<lparr> ln_name = node_name, ln_block_number = block_num,
                      ln_lag_blocks = max_block - block_num, ln_status = st \<rparr>.
                     (node_name, block_num, st) \<leftarrow> block_numbers,
                     max_block - block_num > tolerance],
                analysis_status = analyze_patterns block_diff tolerance \<rparr>)"

section \<open>Health scorer of \<open>scripts/monitoring/blockchain_sync_verification_advanced.py\<close>\<close>

datatype py_error = ZeroDivisionError

text \<open>
  \<open>calculate_node_health_score\<close>. \<open>peers_threshold\<close> is the attribute of the verifier,
  set to 25 by its constructor. The peer share divides by it, which raises when it is 0.
\<close>

definition default_peers_threshold :: int where
  "default_peers_threshold = 25"

definition calculate_node_health_score :: "int \<Rightarrow> NodeInfo \<Rightarrow> py_error + real" where
  "calculate_node_health_score peers_threshold node =
     (let score = 0;
          score = (if status node = ''running'' then score + 25 else score);
          score = (if rpc_responsive node then score + 25 else score);
          score = (case ni_sync_progress node of
                     None \<Rightarrow> score
                   | Some p \<Rightarrow> if p \<ge> 99.5 then score + 30 else score + (p / 100) * 30)
      in if peers node \<ge> peers_threshold then
           Inr (let score = score + 10;
                    score = (if memory_mb node > 0 \<and> memory_mb node < 16000
                             then score + 5 else score);
                    score = (if cpu_usage_percent node > 0 \<and> cpu_usage_percent node < 80
                             then score + 5 else score)
                in min 100 score)
         else if peers_threshold = 0 then Inl ZeroDivisionError
         else
           Inr (let score = score + (real_of_int (peers node) / real_of_int peers_threshold) * 10;
                    score = (if memory_mb node > 0 \<and> memory_mb node < 16000
                             then score + 5 else score);
                    score = (if cpu_usage_percent node > 0 \<and> cpu_usage_percent node < 80
                             then score + 5 else score)
                in min 100 score))"

section \<open>Alert manager of \<open>scripts/monitoring/blockchain_sync_verification_advanced.py\<close>\<close>

record AlertConfig =
  max_block_diff :: int
  min_peer_count :: int
  alert_cooldown :: int
  email_recipients :: "string list"
  slack_webhook_url :: string
  discord_webhook_url :: string

definition default_alert_config :: AlertConfig where
  "default_alert_config =
     \<lparr> max_block_diff = 10, min_peer_count = 8, alert_cooldown = 600,
       email_recipients = [], slack_webhook_url = [], discord_webhook_url = [] \<rparr>"

text \<open>The alert dictionary, without the random identifier and the host name.\<close>

record alert =
  a_timestamp :: real
  a_type :: string
  a_message :: string
  a_severity :: string
  a_node_name :: string

datatype channel = Email | Slack | Discord

text \<open>
  What \<open>trigger_alert\<close> reads and writes: the cooldown table of the verifier, the rows it
  inserts into the \<open>alerts\<close> table, the notifications it hands to the channels, and the
  warning lines it logs.
\<close>

record alert_state =
  alert_cooldowns :: "string \<rightharpoonup> real"
  alerts_table :: "alert list"
  notifications :: "(channel \<times> alert) list"
  warnings :: "string list"

definition initial_alert_state :: alert_state where
  "initial_alert_state =
     \<lparr> alert_cooldowns = Map.empty, alerts_table = [], notifications = [], warnings = [] \<rparr>"

definition send_notifications :: "AlertConfig \<Rightarrow> alert \<Rightarrow> (channel \<times> alert) list" where
  "send_notifications cfg a =
     (if email_recipients cfg \<noteq> [] then [(Email, a)] else []) @
     (if slack_webhook_url cfg \<noteq> [] then [(Slack, a)] else []) @
     (if discord_webhook_url cfg \<noteq> [] then [(Discord, a)] else [])"

definition alert_key_of :: "string \<Rightarrow> string \<Rightarrow> string \<Rightarrow> string" where
  "alert_key_of alert_type node_name message = alert_type @ ''_'' @ node_name @ ''_'' @ message"

text \<open>\<open>trigger_alert\<close>; \<open>current_time\<close> is the reading of the clock at the call.\<close>

definition trigger_alert ::
  "AlertConfig \<Rightarrow> real \<Rightarrow> string \<Rightarrow> string \<Rightarrow> string \<Rightarrow> string \<Rightarrow> alert_state \<Rightarrow> alert_state"
where
  "trigger_alert cfg current_time alert_type message severity node_name st =
     (let alert_key = alert_key_of alert_type node_name message
      in if (case alert_cooldowns st alert_key of
               None \<Rightarrow> False
             | Some last_fired \<Rightarrow> current_time - last_fired < real_of_int (alert_cooldown cfg))
         then st
         else
           let a = \<lparr> a_timestamp = current_time, a_type = alert_type, a_message = message,
                     a_severity = severity, a_node_name = node_name \<rparr>
           in st \<lparr> alert_cooldowns := (alert_cooldowns st)(alert_key \<mapsto> current_time),
                   alerts_table := alerts_table st @ [a],
                   notifications := notifications st @ send_notifications cfg a,
                   warnings := warnings st @ [''ALERT: '' @ alert_type @ '' - '' @ message] \<rparr>)"

section \<open>Integrity verifier of \<open>scripts/monitoring/chain_integrity_verifier.py\<close>\<close>

datatype integrity_issue =
    NoReferenceBlock
  | NoLocalBlock
  | NodeLagging int
  | NodeSignificantlyBehind int
  | BlockHashMismatch int
  | ChainWorkFailed
  | StateRootFailed

record ChainIntegrityResult =
  node_name :: string
  is_valid :: bool
  block_diff :: int
  hash_matches :: bool
  reorg_detected :: bool
  reorg_depth :: int
  chain_work_valid :: bool
  state_root_valid :: bool
  cir_issues :: "integrity_issue list"
  reference_block :: int
  local_block :: int
  confidence_score :: real

text \<open>A field of a fetched block: a text, or any other JSON value.\<close>

datatype jvalue = JStr string | JOther

text \<open>
  The answers the verifier gets from outside: the two block numbers, the hash of a height
  as \<open>get_block_hash\<close> and \<open>get_reference_block_hash\<close> return it (\<open>None\<close> when the
  lookup fails), and the block object received by \<open>verify_chain_work\<close> and by
  \<open>validate_state_root\<close> (\<open>None\<close> when the request fails or has no usable answer).
\<close>

record chain_env =
  env_reference_block :: int
  env_local_block :: int
  get_block_hash :: "int \<Rightarrow> string option"
  get_reference_block_hash :: "int \<Rightarrow> string option"
  chain_work_block :: "int \<Rightarrow> (string \<rightharpoonup> jvalue) option"
  state_root_block :: "int \<Rightarrow> (string \<rightharpoonup> jvalue) option"





text \<open>
  The loop of \<open>detect_reorganizations\<close> over the depths \<open>i\<close> still to visit: a height
  with an unusable local or reference hash is passed over, the first height where two
  usable hashes differ ends the loop with its depth, and 0 is what \<open>reorg_depth\<close> holds
  when the loop runs out.
\<close>

fun reorg_scan :: "chain_env \<Rightarrow> int \<Rightarrow> int list \<Rightarrow> int" where
  "reorg_scan env current_blk [] = 0"
| "reorg_scan env current_blk (i # rest) =
     (let check_block = current_blk - i;
          local_hash = get_block_hash env check_block
      in if \<not> truthy local_hash then reorg_scan env current_blk rest
         else
           let reference_hash = get_reference_block_hash env check_block
           in if \<not> truthy reference_hash then reorg_scan env current_blk rest
              else if local_hash \<noteq> reference_hash then i
              else reorg_scan env current_blk rest)"

definition max_check_depth :: int where
  "max_check_depth = 10"

definition detect_reorganizations :: "chain_env \<Rightarrow> int \<Rightarrow> bool \<times> int" where
  "detect_reorganizations env current_blk =
     (let reorg_dep = reorg_scan env current_blk [1 .. min max_check_depth current_blk - 1]
      in (reorg_dep > 0, reorg_dep))"


section \<open>Collector of \<open>bin/blockchain_sync_verification_comprehensive.py\<close>\<close>

text \<open>
  The value under \<open>result\<close> in the answer to \<open>eth_syncing\<close>: the constant \<open>False\<close>
  (also taken when the key is absent), another value that Python's truth test rejects,
  or an object, given by its \<open>currentBlock\<close> and \<open>highestBlock\<close> (0 for an absent one).
\<close>

datatype sync_result = SyncingFalse | SyncingFalsy | SyncingObject int int

text \<open>The answers to the requests of \<open>get_rpc_sync_data\<close>; \<open>None\<close> stands for a status
  other than 200.\<close>

record rpc_answers =
  ans_syncing :: sync_result
  ans_block_number :: "int option"
  ans_peer_count :: "int option"
  ans_chain_id :: "int option"
  ans_latest_hash :: "string option"

record sync_data =
  sd_sync_status :: string
  sd_current_block :: int
  sd_highest_block :: int
  sd_peer_count :: int
  sd_chain_id :: "int option"
  sd_block_hash :: "string option"

definition get_rpc_sync_data :: "rpc_answers \<Rightarrow> sync_data" where
  "get_rpc_sync_data ans =
     (let st = (if ans_syncing ans = SyncingFalse then ''fully_synced'' else ''syncing'');
          (cur, high) =
            (case ans_syncing ans of
               SyncingObject c h \<Rightarrow> (c, h)
             | _ \<Rightarrow> (case ans_block_number ans of
                       Some b \<Rightarrow> (b, b)
                     | None \<Rightarrow> (0, 0)))
      in \<lparr> sd_sync_status = st,
           sd_current_block = cur,
           sd_highest_block = high,
           sd_peer_count = (case ans_peer_count ans of Some p \<Rightarrow> p | None \<Rightarrow> 0),
           sd_chain_id = ans_chain_id ans,
           sd_block_hash = (if st = ''fully_synced'' then ans_latest_hash ans else None) \<rparr>)"

definition calculate_health_score :: "SyncStatus \<Rightarrow> real" where
  "calculate_health_score st =
     (let score = 100;
          score = (if service_status st \<noteq> ''active'' then score - 50 else score);
          score = (if sync_status st = ''syncing''
                   then score - min 30 (30 - sync_progress st * 0.3)
                   else if sync_status st = ''error'' \<or> sync_status st = ''unknown''
                   then score - 40 else score);
          score = (if peer_count st < 5 then score - 20
                   else if peer_count st < 15 then score - 10 else score);
          score = (if cpu_usage st > 90 then score - 15
                   else if cpu_usage st > 80 then score - 10 else score);
          score = (if memory_usage st > 30 then score - 15
                   else if memory_usage st > 20 then score - 10 else score);
          score = (if response_time st > 5 then score - 20
                   else if response_time st > 2 then score - 10 else score);
          score = score - real (length (issues st)) * 5
      in max 0 score)"

text \<open>
  \<open>get_node_sync_status\<close>. Its inputs are the answer of the service manager, the RPC
  endpoint configured for the node type, what \<open>get_rpc_sync_data\<close> received (\<open>None\<close>
  when it returned \<open>None\<close>), the processor and memory readings of the node's process
  (\<open>None\<close> when no process was found) and the time the probe took.
\<close>

definition get_node_sync_status ::
  "string \<Rightarrow> string \<Rightarrow> string option \<Rightarrow> rpc_answers option \<Rightarrow> (real \<times> real) option \<Rightarrow> real
     \<Rightarrow> SyncStatus"
where
  "get_node_sync_status ntype service rpc_url answers metrics elapsed =
     (let st = \<lparr> node_type = ntype, service_status = ''unknown'', sync_status = ''unknown'',
                  sync_progress = 0, current_block = 0, highest_block = 0, peer_count = 0,
                  cpu_usage = 0, memory_usage = 0, health_score = 0, issues = [],
                  response_time = 0, block_hash = None, chain_id = None \<rparr>;
          st = st \<lparr> service_status := service \<rparr>
      in if service \<noteq> ''active''
         then st \<lparr> issues := issues st @ [''Service not running: '' @ service] \<rparr>
         else if \<not> truthy rpc_url
         then st \<lparr> issues := issues st @ [''No RPC endpoint configured''] \<rparr>
         else
           let st = (case answers of
                       None \<Rightarrow> st
                     | Some ans \<Rightarrow>
                         let d = get_rpc_sync_data ans;
                             st = st \<lparr> sync_status := sd_sync_status d,
                                       current_block := sd_current_block d,
                                       highest_block := sd_highest_block d,
                                       peer_count := sd_peer_count d,
                                       block_hash := sd_block_hash d,
                                       chain_id := sd_chain_id d \<rparr>
                         in if highest_block st > 0
                            then st \<lparr> sync_progress :=
                                   min 100 ((real_of_int (current_block st)
                                              / real_of_int (highest_block st)) * 100) \<rparr>
                            else st);
               st = (case metrics of
                       None \<Rightarrow> st
                     | Some (cpu, mem) \<Rightarrow> st \<lparr> cpu_usage := cpu, memory_usage := mem \<rparr>);
               st = st \<lparr> health_score := calculate_health_score st \<rparr>
           in st \<lparr> response_time := elapsed \<rparr>)"

section \<open>Collector of \<open>scripts/monitoring/blockchain_sync_verification.py\<close>\<close>

text \<open>
  What the \<open>curl\<close> call for \<open>eth_syncing\<close> gave \<open>_verify_single_node\<close>: a failed call,
  an output that is not the expected JSON, the result \<open>False\<close>, or an object result given
  by its \<open>currentBlock\<close> and \<open>highestBlock\<close> (0 for an absent one, and for an absent
  result).
\<close>

datatype curl_answer = CurlFailed | Unparsable | ResultFalse | ResultObject int int

record rpc_check =
  rc_rpc_responsive :: bool
  rc_sync_progress :: "real option"
  rc_current_block :: "int option"
  rc_highest_block :: "int option"

text \<open>
  The RPC connectivity check of \<open>_verify_single_node\<close>. On the result \<open>False\<close> the source
  stores 100.0 and then calls \<open>.get\<close> on that \<open>False\<close>, which raises; the handler of the
  enclosing \<open>try\<close> then stores 0 in all three fields, as it does for an unparsable
  output.
\<close>

definition rpc_connectivity_check :: "curl_answer \<Rightarrow> rpc_check" where
  "rpc_connectivity_check answer =
     (case answer of
        CurlFailed \<Rightarrow>
          \<lparr> rc_rpc_responsive = False, rc_sync_progress = None,
            rc_current_block = None, rc_highest_block = None \<rparr>
      | Unparsable \<Rightarrow>
          \<lparr> rc_rpc_responsive = True, rc_sync_progress = Some 0,
            rc_current_block = Some 0, rc_highest_block = Some 0 \<rparr>
      | ResultFalse \<Rightarrow>
          \<lparr> rc_rpc_responsive = True, rc_sync_progress = Some 0,
            rc_current_block = Some 0, rc_highest_block = Some 0 \<rparr>
      | ResultObject cur high \<Rightarrow>
          \<lparr> rc_rpc_responsive = True,
            rc_sync_progress =
              Some (if high > 0 then real_of_int cur / real_of_int high * 100 else 100),
            rc_current_block = Some cur, rc_highest_block = Some high \<rparr>)"

section \<open>Sets and scenarios used in the statements\<close>

text \<open>The blocks of the nodes that each analyzer keeps: the positive ones in the
  comprehensive analyzer, the ones that are not \<open>None\<close> in the advanced one.\<close>

definition usable_blocks :: "(string \<times> SyncStatus) list \<Rightarrow> int set" where
  "usable_blocks sts = (current_block \<circ> snd) ` {p \<in> set sts. 0 < current_block (snd p)}"

definition known_blocks :: "(string \<times> NodeInfo) list \<Rightarrow> int set" where
  "known_blocks ns = (the \<circ> ni_current_block \<circ> snd) ` {p \<in> set ns. ni_current_block (snd p) \<noteq> None}"



definition scenario_info :: "string \<Rightarrow> int option \<Rightarrow> NodeInfo" where
  "scenario_info n b =
     \<lparr> name = n, client = n, status = ''running'', ni_sync_progress = Some 100,
       ni_current_block = b, ni_highest_block = None, rpc_responsive = True, peers = 30,
       memory_mb = 8000, cpu_usage_percent = 10, ni_health_score = 100 \<rparr>"


definition zero_infos :: "(string \<times> NodeInfo) list" where
  "zero_infos = [(''Geth'', scenario_info ''Geth'' (Some 0)), (''Erigon'', scenario_info ''Erigon'' (Some 0))]"

text \<open>At a height, both hashes are usable and differ; and both hashes are usable.\<close>

definition hash_mismatch :: "chain_env \<Rightarrow> int \<Rightarrow> bool" where
  "hash_mismatch env b \<longleftrightarrow>
     truthy (get_block_hash env b) \<and> truthy (get_reference_block_hash env b) \<and>
     get_block_hash env b \<noteq> get_reference_block_hash env b"

definition both_fetched :: "chain_env \<Rightarrow> int \<Rightarrow> bool" where
  "both_fetched env b \<longleftrightarrow> truthy (get_block_hash env b) \<and> truthy (get_reference_block_hash env b)"

text \<open>
  Environments for the scans at height 1000: one whose local hash differs at 997 and
  whose reference hash is missing at 998, one where all hashes agree, one without
  reference hashes, and one of a node 100 blocks behind with every check failing.
\<close>

definition reorg_env :: chain_env where
  "reorg_env =
     \<lparr> env_reference_block = 1000, env_local_block = 1000,
       get_block_hash = (\<lambda>b. if b = 997 then Some ''0xbb'' else Some ''0xaa''),
       get_reference_block_hash = (\<lambda>b. if b = 998 then None else Some ''0xaa''),
       chain_work_block = (\<lambda>b. None),
       state_root_block = (\<lambda>b. None) \<rparr>"


definition unavailable_env :: chain_env where
  "unavailable_env =
     \<lparr> env_reference_block = 1000, env_local_block = 1000,
       get_block_hash = (\<lambda>b. Some ''0xbb''),
       get_reference_block_hash = (\<lambda>b. None),
       chain_work_block = (\<lambda>b. None),
       state_root_block = (\<lambda>b. None) \<rparr>"

text \<open>The test that makes \<open>trigger_alert\<close> return early: the key has fired, and less
  than the cooldown ago.\<close>

definition in_cooldown :: "AlertConfig \<Rightarrow> real \<Rightarrow> string \<Rightarrow> alert_state \<Rightarrow> bool" where
  "in_cooldown cfg t k st =
     (case alert_cooldowns st k of
        None \<Rightarrow> False
      | Some fired \<Rightarrow> t - fired < real_of_int (alert_cooldown cfg))"

text \<open>The alert that a call records when it is not suppressed.\<close>

definition alert_of :: "real \<Rightarrow> string \<Rightarrow> string \<Rightarrow> string \<Rightarrow> string \<Rightarrow> alert" where
  "alert_of t alert_type message severity nm =
     \<lparr> a_timestamp = t, a_type = alert_type, a_message = message,
       a_severity = severity, a_node_name = nm \<rparr>"

definition slack_config :: AlertConfig where
  "slack_config = default_alert_config \<lparr> slack_webhook_url := ''https://hooks.example/T1'' \<rparr>"

definition fired_state :: alert_state where
  "fired_state =
     trigger_alert default_alert_config 0 ''NODE_METRIC'' ''Geth: LOW_PEER_COUNT: 2'' ''warning'' []
       initial_alert_state"




text \<open>Nodes and RPC answers for the scorer and the collectors.\<close>

definition idle_node :: NodeInfo where
  "idle_node = (scenario_info ''Geth'' (Some 100)) \<lparr> cpu_usage_percent := 0 \<rparr>"

definition negative_peers_node :: NodeInfo where
  "negative_peers_node =
     \<lparr> name = ''Geth'', client = ''geth'', status = ''stopped'', ni_sync_progress = None,
       ni_current_block = None, ni_highest_block = None, rpc_responsive = False, peers = - 5,
       memory_mb = 0, cpu_usage_percent = 0, ni_health_score = 0 \<rparr>"

definition synced_no_block :: rpc_answers where
  "synced_no_block =
     \<lparr> ans_syncing = SyncingFalse, ans_block_number = None, ans_peer_count = Some 30,
       ans_chain_id = Some 1, ans_latest_hash = None \<rparr>"

definition synced_at :: "int \<Rightarrow> rpc_answers" where
  "synced_at b = synced_no_block \<lparr> ans_block_number := Some b \<rparr>"

definition syncing_at :: "int \<Rightarrow> int \<Rightarrow> rpc_answers" where
  "syncing_at c h = synced_no_block \<lparr> ans_syncing := SyncingObject c h \<rparr>"

section \<open>Properties of the consistency analyzers\<close>



lemma set_usable_blocks:
  "set [current_block s. (k, s) \<leftarrow> sts, current_block s > 0] = usable_blocks sts"
  unfolding usable_blocks_def by (auto simp: image_iff) force+

lemma set_block_numbers_of:
  "set (map (\<lambda>(n, b, st). b) (block_numbers_of ns)) = known_blocks ns"
  unfolding block_numbers_of_def known_blocks_def by (auto simp: image_iff) force+

lemma verify_Inr_iff:
  "(\<exists>r. verify_cross_node_consistency tol net sts ref = Inr r) \<longleftrightarrow> usable_blocks sts \<noteq> {}"
proof -
  have "usable_blocks sts \<noteq> {} \<Longrightarrow> sts \<noteq> []"
    by (auto simp: usable_blocks_def)
  then show ?thesis
    unfolding set_usable_blocks [symmetric]
    by (auto simp: verify_cross_node_consistency_def Let_def simp del: set_concat)
qed


lemma validate_Inr_iff:
  "(\<exists>c. validate_cross_node_consistency ns net tol = Inr c) \<longleftrightarrow> known_blocks ns \<noteq> {}"
  unfolding set_block_numbers_of [symmetric]
  by (auto simp: validate_cross_node_consistency_def Let_def)








text \<open>
  The comprehensive analyzer answers with one of its two errors exactly when no node
  has a positive block.
\<close>

lemma verify_no_data:
  "usable_blocks sts = {} \<longleftrightarrow>
     verify_cross_node_consistency tol net sts ref \<in> {Inl NoNodeStatus, Inl NoValidBlocks}"
proof -
  have "usable_blocks sts \<noteq> {} \<Longrightarrow> sts \<noteq> []"
    by (auto simp: usable_blocks_def)
  then show ?thesis
    unfolding set_usable_blocks [symmetric]
    by (auto simp: verify_cross_node_consistency_def Let_def simp del: set_concat)
qed

text \<open>
  Claim C3. The advanced analyzer keeps every node whose block is not \<open>None\<close>, also
  a node at block 0. For two nodes that both report block 0 (no node reports a positive
  block) it returns no error but a report with \<open>max_block = min_block = 0\<close> and the
  verdict "consistent", where the claim asks for the no-data error.
\<close>

theorem advanced_zero_blocks_consistent:
  "map (ni_current_block \<circ> snd) zero_infos = [Some 0, Some 0] \<and>
   validate_cross_node_consistency zero_infos ''mainnet'' 3 =
     Inr \<lparr> cr_network = ''mainnet'', cr_tolerance = 3, cr_max_block = 0, cr_min_block = 0,
           cr_block_difference = 0, nodes_consistent = True, lagging_nodes = [],
           analysis_status = ''perfect_consistency'' \<rparr>"
  by (simp add: validate_cross_node_consistency_def block_numbers_of_def zero_infos_def
        scenario_info_def Let_def analyze_patterns_def)

section \<open>Properties of the reorganization scan\<close>

lemma reorg_scan_step:
  "reorg_scan env h (i # rest) = (if hash_mismatch env (h - i) then i else reorg_scan env h rest)"
  by (simp add: hash_mismatch_def Let_def)

lemma reorg_scan_no_mismatch:
  "(\<forall>i \<in> set ds. \<not> hash_mismatch env (h - i)) \<Longrightarrow> reorg_scan env h ds = 0"
  by (induction ds) (simp_all add: reorg_scan_step del: reorg_scan.simps(2))

lemma reorg_scan_append:
  "(\<forall>i \<in> set pre. \<not> hash_mismatch env (h - i)) \<Longrightarrow>
     reorg_scan env h (pre @ ds) = reorg_scan env h ds"
  by (induction pre) (simp_all add: reorg_scan_step del: reorg_scan.simps(2))

lemma reorg_scan_result:
  "reorg_scan env h ds = 0 \<or>
   (\<exists>pre post. ds = pre @ reorg_scan env h ds # post \<and>
      (\<forall>j \<in> set pre. \<not> hash_mismatch env (h - j)) \<and>
      hash_mismatch env (h - reorg_scan env h ds))"
proof (induction ds)
  case Nil
  show ?case by simp
next
  case (Cons i ds)
  show ?case
  proof (cases "hash_mismatch env (h - i)")
    case True
    then have "reorg_scan env h (i # ds) = i" by (simp add: reorg_scan_step del: reorg_scan.simps(2))
    with True show ?thesis
      by (intro disjI2) (rule exI [of _ "[]"], rule exI [of _ ds], simp del: reorg_scan.simps(2))
  next
    case False
    then have eq: "reorg_scan env h (i # ds) = reorg_scan env h ds"
      by (simp add: reorg_scan_step del: reorg_scan.simps(2))
    from Cons.IH show ?thesis
    proof
      assume "reorg_scan env h ds = 0"
      with eq show ?thesis by (simp del: reorg_scan.simps(2))
    next
      assume "\<exists>pre post. ds = pre @ reorg_scan env h ds # post \<and>
        (\<forall>j \<in> set pre. \<not> hash_mismatch env (h - j)) \<and>
        hash_mismatch env (h - reorg_scan env h ds)"
      then obtain pre post where p: "ds = pre @ reorg_scan env h ds # post"
        "\<forall>j \<in> set pre. \<not> hash_mismatch env (h - j)"
        "hash_mismatch env (h - reorg_scan env h ds)" by blast
      from p(1) have "i # ds = (i # pre) @ reorg_scan env h ds # post" by simp
      with p(2,3) False eq show ?thesis
        by (intro disjI2)
          (rule exI [of _ "i # pre"], rule exI [of _ post], simp del: reorg_scan.simps(2))
    qed
  qed
qed

lemma upto_split_at:
  assumes "[a..b] = pre @ d # post"
  shows "a \<le> d \<and> d \<le> b \<and> {a..<d} \<subseteq> set pre"
proof -
  from assms have "d \<in> set [a..b]" by simp
  then have ab: "a \<le> d" "d \<le> b" by simp_all
  have "sorted_wrt (<) (pre @ d # post)" unfolding assms [symmetric] by simp
  then have post: "\<forall>x \<in> set post. d < x" by (simp add: sorted_wrt_append)
  have "j \<in> set pre" if "j \<in> {a..<d}" for j
  proof -
    from that ab have "j \<in> set [a..b]" by simp
    then have "j \<in> set pre \<or> j = d \<or> j \<in> set post" unfolding assms by auto
    with that post show ?thesis by auto
  qed
  with ab show ?thesis by blast
qed

lemma reorg_scan_zero_iff:
  "0 \<notin> set ds \<Longrightarrow>
     reorg_scan env h ds = 0 \<longleftrightarrow> (\<forall>i \<in> set ds. \<not> hash_mismatch env (h - i))"
  by (induction ds) (auto simp: reorg_scan_step simp del: reorg_scan.simps(2))

lemma detect_reorganizations_char:
  "detect_reorganizations env h = (detected, depth) \<Longrightarrow>
     (detected \<longleftrightarrow> (\<exists>i \<in> {1..<min 10 h}. hash_mismatch env (h - i))) \<and>
     (detected \<longrightarrow> 1 \<le> depth \<and> depth < min 10 h \<and> hash_mismatch env (h - depth) \<and>
                 (\<forall>j \<in> {1..<depth}. \<not> hash_mismatch env (h - j))) \<and>
     (\<not> detected \<longrightarrow> depth = 0) \<and>
     ((\<forall>i \<in> {1..<min 10 h}. get_block_hash env (h - i) = get_reference_block_hash env (h - i))
        \<longrightarrow> \<not> detected \<and> depth = 0)"
proof -
  assume a: "detect_reorganizations env h = (detected, depth)"
  let ?ds = "[1..min 10 h - 1]"
  from a have depth: "depth = reorg_scan env h ?ds" and det: "detected \<longleftrightarrow> depth > 0"
    by (auto simp: detect_reorganizations_def max_check_depth_def Let_def)
  have win: "set ?ds = {1..<min 10 h}" by auto
  have nz: "0 \<notin> set ?ds" by simp
  have zero: "depth = 0 \<longleftrightarrow> (\<forall>i \<in> {1..<min 10 h}. \<not> hash_mismatch env (h - i))"
    unfolding depth reorg_scan_zero_iff [OF nz] win ..
  have pos: "1 \<le> depth \<and> depth < min 10 h \<and>
       hash_mismatch env (h - depth) \<and> (\<forall>j \<in> {1..<depth}. \<not> hash_mismatch env (h - j))"
    if "depth \<noteq> 0"
  proof -
    from reorg_scan_result [of env h ?ds] that depth
    obtain pre post where p: "?ds = pre @ depth # post"
      "\<forall>j \<in> set pre. \<not> hash_mismatch env (h - j)" "hash_mismatch env (h - depth)"
      by auto
    from upto_split_at [OF p(1)]
    have b: "1 \<le> depth" "depth \<le> min 10 h - 1" "{1..<depth} \<subseteq> set pre"
      by simp_all
    from b(2) have "depth < min 10 h" by simp
    with p(2,3) b(1,3) show ?thesis by auto
  qed
  from pos have det': "detected \<longleftrightarrow> depth \<noteq> 0"
    unfolding det by (cases "depth = 0") simp_all
  have agree: "\<forall>i \<in> {1..<min 10 h}. \<not> hash_mismatch env (h - i)"
    if "\<forall>i \<in> {1..<min 10 h}. get_block_hash env (h - i) = get_reference_block_hash env (h - i)"
    using that by (simp add: hash_mismatch_def)
  show ?thesis
  proof (intro conjI impI)
    show "detected \<longleftrightarrow> (\<exists>i \<in> {1..<min 10 h}. hash_mismatch env (h - i))"
      unfolding det' zero by blast
    show "1 \<le> depth" "depth < min 10 h" "hash_mismatch env (h - depth)"
      "\<forall>j \<in> {1..<depth}. \<not> hash_mismatch env (h - j)" if detected
      using pos that det' by simp_all
    show "depth = 0" if "\<not> detected" using that det' by simp
    show "\<not> detected" "depth = 0"
      if "\<forall>i \<in> {1..<min 10 h}. get_block_hash env (h - i) = get_reference_block_hash env (h - i)"
      using agree [OF that] zero det' by simp_all
  qed
qed



text \<open>
  Claim C10. A reported reorganization points at a height of the window where both
  hashes were fetched and differ. A height where the local or the reference hash is
  missing or empty is passed over: the scan continues with the remaining depths as if
  that height were not there, and a window without a single height with both hashes
  gives \<open>(False, 0)\<close>.
\<close>

theorem unavailable_hash_skipped:
  "(detect_reorganizations env h = (True, depth) \<longrightarrow>
      1 \<le> depth \<and> depth < min 10 h \<and> both_fetched env (h - depth) \<and>
      get_block_hash env (h - depth) \<noteq> get_reference_block_hash env (h - depth)) \<and>
   (\<not> both_fetched env (h - i) \<longrightarrow> reorg_scan env h (i # rest) = reorg_scan env h rest) \<and>
   ((\<forall>i \<in> {1..<min 10 h}. \<not> both_fetched env (h - i))
      \<longrightarrow> detect_reorganizations env h = (False, 0))"
proof (intro conjI impI)
  assume a: "detect_reorganizations env h = (True, depth)"
  from detect_reorganizations_char [OF a]
  have "1 \<le> depth" "depth < min 10 h" "hash_mismatch env (h - depth)" by simp_all
  then show "1 \<le> depth" "depth < min 10 h" "both_fetched env (h - depth)"
    "get_block_hash env (h - depth) \<noteq> get_reference_block_hash env (h - depth)"
    by (simp_all add: hash_mismatch_def both_fetched_def)
next
  assume "\<not> both_fetched env (h - i)"
  then have "\<not> hash_mismatch env (h - i)" by (auto simp: hash_mismatch_def both_fetched_def)
  then show "reorg_scan env h (i # rest) = reorg_scan env h rest"
    by (simp add: reorg_scan_step del: reorg_scan.simps(2))
next
  assume n: "\<forall>i \<in> {1..<min 10 h}. \<not> both_fetched env (h - i)"
  obtain d k where dk: "detect_reorganizations env h = (d, k)"
    by (cases "detect_reorganizations env h") blast
  from n have "\<not> (\<exists>i \<in> {1..<min 10 h}. hash_mismatch env (h - i))"
    by (auto simp: hash_mismatch_def both_fetched_def)
  with detect_reorganizations_char [OF dk] have "\<not> d" "k = 0" by blast+
  with dk show "detect_reorganizations env h = (False, 0)" by simp
qed

theorem unavailable_hash_skipped_witness:
  "detect_reorganizations reorg_env 1000 = (True, 3) \<and>
   both_fetched reorg_env 997 \<and>
   get_block_hash reorg_env 997 \<noteq> get_reference_block_hash reorg_env 997 \<and>
   \<not> both_fetched reorg_env 998 \<and>
   reorg_scan reorg_env 1000 [2, 3] = reorg_scan reorg_env 1000 [3] \<and>
   \<not> both_fetched unavailable_env 999 \<and>
   detect_reorganizations unavailable_env 1000 = (False, 0)"
proof -
  have h: "detect_reorganizations reorg_env 1000 = (True, 3)"
    by (simp add: detect_reorganizations_def max_check_depth_def reorg_env_def Let_def upto_rec1)
  have s: "\<not> both_fetched reorg_env (1000 - 2)"
    by (simp add: both_fetched_def reorg_env_def)
  have u: "\<forall>i \<in> {1..<min 10 1000}. \<not> both_fetched unavailable_env (1000 - i)"
    by (simp add: both_fetched_def unavailable_env_def)
  note T1 = unavailable_hash_skipped [of reorg_env 1000 3 2 "[3]"]
  note T2 = unavailable_hash_skipped [of unavailable_env 1000 0 0 "[]"]
  from u [rule_format, of 1] have u1: "\<not> both_fetched unavailable_env 999" by simp
  from T1 h s have A: "both_fetched reorg_env 997"
    "get_block_hash reorg_env 997 \<noteq> get_reference_block_hash reorg_env 997"
    "\<not> both_fetched reorg_env 998"
    "reorg_scan reorg_env 1000 [2, 3] = reorg_scan reorg_env 1000 [3]"
    by simp_all
  from T2 u have B: "detect_reorganizations unavailable_env 1000 = (False, 0)" by blast
  show ?thesis by (intro conjI h A u1 B)
qed

section \<open>Properties of the alert manager\<close>

lemma trigger_alert_suppressed:
  "in_cooldown cfg t (alert_key_of ty nm msg) st \<Longrightarrow> trigger_alert cfg t ty msg sev nm st = st"
  by (auto simp: trigger_alert_def in_cooldown_def Let_def)

lemma trigger_alert_fires:
  "\<not> in_cooldown cfg t (alert_key_of ty nm msg) st \<Longrightarrow>
     trigger_alert cfg t ty msg sev nm st =
       st \<lparr> alert_cooldowns := (alert_cooldowns st)(alert_key_of ty nm msg \<mapsto> t),
            alerts_table := alerts_table st @ [alert_of t ty msg sev nm],
            notifications := notifications st @ send_notifications cfg (alert_of t ty msg sev nm),
            warnings := warnings st @ [''ALERT: '' @ ty @ '' - '' @ msg] \<rparr>"
  by (auto simp: trigger_alert_def in_cooldown_def alert_of_def Let_def split: option.splits)

lemma in_cooldown_after_fire:
  "\<not> in_cooldown cfg t0 (alert_key_of ty nm msg) st \<Longrightarrow>
     in_cooldown cfg t (alert_key_of ty nm msg) (trigger_alert cfg t0 ty msg sev nm st)
       \<longleftrightarrow> t - t0 < real_of_int (alert_cooldown cfg)"
  by (simp add: trigger_alert_fires) (simp add: in_cooldown_def)

text \<open>
  Claim C7. With the cooldown of 600 seconds, an alert that is not in its cooldown at
  time \<open>t0\<close> is recorded; the same type, node and message at \<open>t0 + 300\<close> leaves
  every part of the state as it was (no row, no notification, no log line); and at
  \<open>t0 + 700\<close> the alert is recorded a second time. The claim is the case
  \<open>t0 = 0\<close>.
\<close>

theorem alert_dedup_scenario:
  fixes cfg :: AlertConfig and t0 :: real and ty msg sev nm :: string and st :: alert_state
  assumes cd: "alert_cooldown cfg = 600"
    and fresh: "\<not> in_cooldown cfg t0 (alert_key_of ty nm msg) st"
  defines "s1 \<equiv> trigger_alert cfg t0 ty msg sev nm st"
  defines "s2 \<equiv> trigger_alert cfg (t0 + 300) ty msg sev nm s1"
  defines "s3 \<equiv> trigger_alert cfg (t0 + 700) ty msg sev nm s2"
  shows "alerts_table s1 = alerts_table st @ [alert_of t0 ty msg sev nm] \<and>
         s2 = s1 \<and>
         alerts_table s3 = alerts_table st @ [alert_of t0 ty msg sev nm, alert_of (t0 + 700) ty msg sev nm] \<and>
         notifications s3 = notifications st @ send_notifications cfg (alert_of t0 ty msg sev nm)
                              @ send_notifications cfg (alert_of (t0 + 700) ty msg sev nm) \<and>
         warnings s3 = warnings st @ [''ALERT: '' @ ty @ '' - '' @ msg, ''ALERT: '' @ ty @ '' - '' @ msg]"
proof -
  have s1: "s1 = st \<lparr> alert_cooldowns := (alert_cooldowns st)(alert_key_of ty nm msg \<mapsto> t0),
            alerts_table := alerts_table st @ [alert_of t0 ty msg sev nm],
            notifications := notifications st @ send_notifications cfg (alert_of t0 ty msg sev nm),
            warnings := warnings st @ [''ALERT: '' @ ty @ '' - '' @ msg] \<rparr>"
    unfolding s1_def by (rule trigger_alert_fires [OF fresh])
  have "in_cooldown cfg (t0 + 300) (alert_key_of ty nm msg) s1"
    unfolding s1_def in_cooldown_after_fire [OF fresh] using cd by simp
  then have s2: "s2 = s1" unfolding s2_def by (rule trigger_alert_suppressed)
  have "\<not> in_cooldown cfg (t0 + 700) (alert_key_of ty nm msg) s1"
    unfolding s1_def in_cooldown_after_fire [OF fresh] using cd by simp
  then have s3: "s3 = s1 \<lparr> alert_cooldowns := (alert_cooldowns s1)(alert_key_of ty nm msg \<mapsto> t0 + 700),
            alerts_table := alerts_table s1 @ [alert_of (t0 + 700) ty msg sev nm],
            notifications := notifications s1 @ send_notifications cfg (alert_of (t0 + 700) ty msg sev nm),
            warnings := warnings s1 @ [''ALERT: '' @ ty @ '' - '' @ msg] \<rparr>"
    unfolding s3_def s2 by (rule trigger_alert_fires)
  show ?thesis unfolding s3 s2 by (simp add: s1)
qed

theorem alert_dedup_scenario_witness:
  "alert_cooldown slack_config = 600 \<and>
   \<not> in_cooldown slack_config 0 (alert_key_of ''CONSISTENCY'' ''Geth'' ''lagging'') initial_alert_state \<and>
   alerts_table
     (trigger_alert slack_config 700 ''CONSISTENCY'' ''lagging'' ''warning'' ''Geth''
       (trigger_alert slack_config 300 ''CONSISTENCY'' ''lagging'' ''warning'' ''Geth''
         (trigger_alert slack_config 0 ''CONSISTENCY'' ''lagging'' ''warning'' ''Geth''
            initial_alert_state)))
     = [alert_of 0 ''CONSISTENCY'' ''lagging'' ''warning'' ''Geth'',
        alert_of 700 ''CONSISTENCY'' ''lagging'' ''warning'' ''Geth'']"
proof -
  have cd: "alert_cooldown slack_config = 600"
    by (simp add: slack_config_def default_alert_config_def)
  have fresh: "\<not> in_cooldown slack_config 0 (alert_key_of ''CONSISTENCY'' ''Geth'' ''lagging'')
                  initial_alert_state"
    by (simp add: in_cooldown_def initial_alert_state_def)
  have e: "alerts_table initial_alert_state = []" by (simp add: initial_alert_state_def)
  note T = alert_dedup_scenario [OF cd fresh, of "''warning''"]
  from T [THEN conjunct2, THEN conjunct2, THEN conjunct1]
  have "alerts_table
     (trigger_alert slack_config 700 ''CONSISTENCY'' ''lagging'' ''warning'' ''Geth''
       (trigger_alert slack_config 300 ''CONSISTENCY'' ''lagging'' ''warning'' ''Geth''
         (trigger_alert slack_config 0 ''CONSISTENCY'' ''lagging'' ''warning'' ''Geth''
            initial_alert_state)))
     = [alert_of 0 ''CONSISTENCY'' ''lagging'' ''warning'' ''Geth'',
        alert_of 700 ''CONSISTENCY'' ''lagging'' ''warning'' ''Geth'']"
    unfolding e by simp
  with cd fresh show ?thesis by (intro conjI)
qed

text \<open>
  Claim C9. A suppressed call returns the state unchanged, the cooldown entry
  included. So any run of attempts that all fall inside the cooldown of the last alert
  that fired leaves the state as that alert left it, and the next attempt a full
  cooldown after that alert is recorded, however many attempts were suppressed
  before.
\<close>

theorem suppressed_alert_changes_nothing:
  "(in_cooldown cfg t (alert_key_of ty nm msg) st \<longrightarrow>
      trigger_alert cfg t ty msg sev nm st = st) \<and>
   (alert_cooldowns st (alert_key_of ty nm msg) = Some fired \<and>
    (\<forall>t \<in> set ts. t - fired < real_of_int (alert_cooldown cfg)) \<longrightarrow>
      fold (\<lambda>t s. trigger_alert cfg t ty msg sev nm s) ts st = st) \<and>
   (alert_cooldowns st (alert_key_of ty nm msg) = Some fired \<and>
    (\<forall>t \<in> set ts. t - fired < real_of_int (alert_cooldown cfg)) \<and>
    real_of_int (alert_cooldown cfg) \<le> t' - fired \<longrightarrow>
      alerts_table (trigger_alert cfg t' ty msg sev nm
                      (fold (\<lambda>t s. trigger_alert cfg t ty msg sev nm s) ts st))
        = alerts_table st @ [alert_of t' ty msg sev nm])"
proof -
  have rep: "fold (\<lambda>t s. trigger_alert cfg t ty msg sev nm s) ts st = st"
    if "alert_cooldowns st (alert_key_of ty nm msg) = Some fired"
      "\<forall>t \<in> set ts. t - fired < real_of_int (alert_cooldown cfg)"
    using that
  proof (induction ts)
    case Nil
    show ?case by simp
  next
    case (Cons t ts)
    from Cons.prems have "in_cooldown cfg t (alert_key_of ty nm msg) st"
      by (simp add: in_cooldown_def)
    then have "trigger_alert cfg t ty msg sev nm st = st" by (rule trigger_alert_suppressed)
    with Cons show ?case by simp
  qed
  have fire: "alerts_table (trigger_alert cfg t' ty msg sev nm st)
        = alerts_table st @ [alert_of t' ty msg sev nm]"
    if "alert_cooldowns st (alert_key_of ty nm msg) = Some fired"
       "real_of_int (alert_cooldown cfg) \<le> t' - fired"
  proof -
    from that have "\<not> in_cooldown cfg t' (alert_key_of ty nm msg) st"
      by (simp add: in_cooldown_def)
    from trigger_alert_fires [OF this] show ?thesis by simp
  qed
  from rep fire trigger_alert_suppressed [of cfg t ty nm msg st sev] show ?thesis by simp
qed

theorem suppressed_alert_changes_nothing_witness:
  "in_cooldown default_alert_config 300 (alert_key_of ''NODE_METRIC'' [] ''Geth: LOW_PEER_COUNT: 2'')
     fired_state \<and>
   trigger_alert default_alert_config 300 ''NODE_METRIC'' ''Geth: LOW_PEER_COUNT: 2'' ''warning'' []
     fired_state = fired_state \<and>
   fold (\<lambda>t s. trigger_alert default_alert_config t ''NODE_METRIC'' ''Geth: LOW_PEER_COUNT: 2''
                  ''warning'' [] s) [100, 300, 599] fired_state = fired_state \<and>
   alerts_table
     (trigger_alert default_alert_config 600 ''NODE_METRIC'' ''Geth: LOW_PEER_COUNT: 2'' ''warning'' []
        (fold (\<lambda>t s. trigger_alert default_alert_config t ''NODE_METRIC''
                       ''Geth: LOW_PEER_COUNT: 2'' ''warning'' [] s) [100, 300, 599] fired_state))
     = alerts_table fired_state @
         [alert_of 600 ''NODE_METRIC'' ''Geth: LOW_PEER_COUNT: 2'' ''warning'' []]"
proof -
  have f: "\<not> in_cooldown default_alert_config 0
             (alert_key_of ''NODE_METRIC'' [] ''Geth: LOW_PEER_COUNT: 2'') initial_alert_state"
    by (simp add: in_cooldown_def initial_alert_state_def)
  have c: "in_cooldown default_alert_config 300 (alert_key_of ''NODE_METRIC'' [] ''Geth: LOW_PEER_COUNT: 2'')
     fired_state"
    unfolding fired_state_def in_cooldown_after_fire [OF f] by (simp add: default_alert_config_def)
  have k: "alert_cooldowns fired_state (alert_key_of ''NODE_METRIC'' [] ''Geth: LOW_PEER_COUNT: 2'')
             = Some 0"
    unfolding fired_state_def trigger_alert_fires [OF f] by simp
  have ts: "\<forall>t \<in> set [100, 300, 599 :: real]. t - 0 < real_of_int (alert_cooldown default_alert_config)"
    by (simp add: default_alert_config_def)
  have t': "real_of_int (alert_cooldown default_alert_config) \<le> 600 - 0"
    by (simp add: default_alert_config_def)
  note T = suppressed_alert_changes_nothing
    [of default_alert_config 300 "''NODE_METRIC''" "[]" "''Geth: LOW_PEER_COUNT: 2''" fired_state
        "''warning''" 0 "[100, 300, 599]" 600]
  note A = T [THEN conjunct1, THEN mp, OF c]
  note B = T [THEN conjunct2, THEN conjunct1, THEN mp, OF conjI [OF k ts]]
  note C = T [THEN conjunct2, THEN conjunct2, THEN mp, OF conjI [OF k conjI [OF ts t']]]
  show ?thesis by (intro conjI c A B C)
qed

section \<open>Properties of the integrity verifier\<close>









section \<open>Properties of the health scorer and of the collectors\<close>

text \<open>
  Claim C8, as stated, fails. The scorer gives the five points for the processor only to
  a reading strictly between 0 and 80 (and the five for memory only strictly between 0
  and 16000 MB): a running, responsive, fully synced node with 30 peers, 8000 MB and a
  processor reading of 0 scores 95. And only the upper end is clamped: a negative peer
  count gives a negative score.
\<close>

theorem health_score_zero_cpu_reading:
  "status idle_node = ''running'' \<and> rpc_responsive idle_node \<and>
   ni_sync_progress idle_node = Some 100 \<and> peers idle_node \<ge> default_peers_threshold \<and>
   memory_mb idle_node < 16000 \<and> cpu_usage_percent idle_node < 80 \<and>
   calculate_node_health_score default_peers_threshold idle_node = Inr 95 \<and>
   calculate_node_health_score default_peers_threshold negative_peers_node = Inr (- 2)"
  by (simp add: calculate_node_health_score_def idle_node_def negative_peers_node_def
        scenario_info_def default_peers_threshold_def Let_def)

text \<open>
  Claim C8, amended. A node that is running and responsive, with sync progress 100, at
  least \<open>peers_threshold\<close> peers, memory strictly between 0 and 16000 MB and processor
  use strictly between 0 and 80 percent scores 100. Every score is at most 100; it is
  at least 0 when the peer count and the sync progress are not negative. The scorer
  returns a score unless the threshold is 0 and the peer count negative.
\<close>

theorem health_score_full_and_bounds:
  "(status node = ''running'' \<and> rpc_responsive node \<and> ni_sync_progress node = Some 100 \<and>
    peers node \<ge> pt \<and> 0 < memory_mb node \<and> memory_mb node < 16000 \<and>
    0 < cpu_usage_percent node \<and> cpu_usage_percent node < 80
      \<longrightarrow> calculate_node_health_score pt node = Inr 100) \<and>
   (calculate_node_health_score pt node = Inr s \<longrightarrow> s \<le> 100) \<and>
   (calculate_node_health_score pt node = Inr s \<and> 0 \<le> peers node \<and>
    ni_sync_progress node \<in> {None} \<union> Some ` {0..}
      \<longrightarrow> 0 \<le> s) \<and>
   (pt \<noteq> 0 \<or> 0 \<le> peers node \<longrightarrow> (\<exists>s'. calculate_node_health_score pt node = Inr s'))"
proof (intro conjI impI)
  assume "status node = ''running'' \<and> rpc_responsive node \<and> ni_sync_progress node = Some 100 \<and>
    peers node \<ge> pt \<and> 0 < memory_mb node \<and> memory_mb node < 16000 \<and>
    0 < cpu_usage_percent node \<and> cpu_usage_percent node < 80"
  then show "calculate_node_health_score pt node = Inr 100"
    by (simp add: calculate_node_health_score_def Let_def)
next
  assume "calculate_node_health_score pt node = Inr s"
  then show "s \<le> 100"
    by (auto simp: calculate_node_health_score_def Let_def split: if_splits)
next
  assume a: "calculate_node_health_score pt node = Inr s \<and> 0 \<le> peers node \<and>
    ni_sync_progress node \<in> {None} \<union> Some ` {0..}"
  have sync: "0 \<le> (case ni_sync_progress node of None \<Rightarrow> 0 :: real
                     | Some p \<Rightarrow> if p \<ge> 99.5 then 30 else (p / 100) * 30)"
    using a by (auto split: option.splits)
  show "0 \<le> s"
  proof (cases "peers node \<ge> pt")
    case True
    with a sync show ?thesis
      by (auto simp: calculate_node_health_score_def Let_def split: if_splits option.splits)
  next
    case False
    with a have pt: "0 < pt" by simp
    with a have "0 \<le> real_of_int (peers node) / real_of_int pt * 10" by simp
    with a False sync show ?thesis
      by (auto simp: calculate_node_health_score_def Let_def split: if_splits option.splits)
  qed
next
  assume "pt \<noteq> 0 \<or> 0 \<le> peers node"
  then show "\<exists>s'. calculate_node_health_score pt node = Inr s'"
    by (auto simp: calculate_node_health_score_def Let_def)
qed

theorem health_score_full_and_bounds_witness:
  "status (scenario_info ''Geth'' (Some 100)) = ''running'' \<and>
   peers (scenario_info ''Geth'' (Some 100)) \<ge> default_peers_threshold \<and>
   calculate_node_health_score default_peers_threshold (scenario_info ''Geth'' (Some 100)) = Inr 100 \<and>
   (0 :: real) \<le> 100 \<and> (100 :: real) \<le> 100"
proof -
  let ?n = "scenario_info ''Geth'' (Some 100)"
  have h: "status ?n = ''running'' \<and> rpc_responsive ?n \<and> ni_sync_progress ?n = Some 100 \<and>
    peers ?n \<ge> default_peers_threshold \<and> 0 < memory_mb ?n \<and> memory_mb ?n < 16000 \<and>
    0 < cpu_usage_percent ?n \<and> cpu_usage_percent ?n < 80"
    by (simp add: scenario_info_def default_peers_threshold_def)
  note T = health_score_full_and_bounds [of ?n default_peers_threshold 100]
  note A = T [THEN conjunct1, THEN mp, OF h]
  have p: "0 \<le> peers ?n \<and> ni_sync_progress ?n \<in> {None} \<union> Some ` {0..}"
    by (simp add: scenario_info_def)
  note B = T [THEN conjunct2, THEN conjunct1, THEN mp, OF A]
  note C = T [THEN conjunct2, THEN conjunct2, THEN conjunct1, THEN mp, OF conjI [OF A p]]
  from h have h1: "status ?n = ''running''" and h2: "peers ?n \<ge> default_peers_threshold"
    by simp_all
  show ?thesis by (intro conjI h1 h2 A B C)
qed

lemma get_node_sync_status_progress:
  "sync_progress (get_node_sync_status nt svc url answers metrics el) =
     (if highest_block (get_node_sync_status nt svc url answers metrics el) > 0
      then min 100 (real_of_int (current_block (get_node_sync_status nt svc url answers metrics el))
                     / real_of_int (highest_block (get_node_sync_status nt svc url answers metrics el))
                     * 100)
      else 0)"
  by (simp add: get_node_sync_status_def Let_def split: option.splits prod.splits)

lemma get_node_sync_status_blocks:
  "truthy url \<Longrightarrow>
     current_block (get_node_sync_status nt ''active'' url (Some ans) metrics el)
       = sd_current_block (get_rpc_sync_data ans) \<and>
     highest_block (get_node_sync_status nt ''active'' url (Some ans) metrics el)
       = sd_highest_block (get_rpc_sync_data ans)"
  by (simp add: get_node_sync_status_def Let_def split: option.splits prod.splits)

text \<open>
  Claim C5, as stated, fails. In the comprehensive collector a node that reports "not
  syncing" but whose block number is unavailable or 0 gets sync progress 0, not 100.
  In \<open>blockchain_sync_verification.py\<close> a syncing node with \<open>highest_block = 0\<close> gets
  100, not 0, and the progress is not capped: 150 of 100 blocks gives 150.
\<close>

theorem sync_progress_counterexample:
  "sync_progress (get_node_sync_status ''geth'' ''active'' (Some ''http://127.0.0.1:8545'')
                    (Some synced_no_block) None 1) = 0 \<and>
   sync_progress (get_node_sync_status ''geth'' ''active'' (Some ''http://127.0.0.1:8545'')
                    (Some (synced_at 0)) None 1) = 0 \<and>
   rc_sync_progress (rpc_connectivity_check (ResultObject 500 0)) = Some 100 \<and>
   rc_sync_progress (rpc_connectivity_check (ResultObject 150 100)) = Some 150"
  by (simp add: get_node_sync_status_progress get_node_sync_status_blocks get_rpc_sync_data_def
        synced_no_block_def synced_at_def rpc_connectivity_check_def)

text \<open>
  Claim C5, amended. In the comprehensive collector the sync progress is
  \<open>min(100, current/highest * 100)\<close> when \<open>highest_block > 0\<close> and 0 when
  \<open>highest_block\<close> is 0, on every path; a node that reports "not syncing" has both
  blocks set to its block number, so it gets 100 when that number is positive and 0
  when it is 0 or unavailable. In \<open>blockchain_sync_verification.py\<close> a syncing answer
  gives \<open>current/highest * 100\<close>, uncapped, when \<open>highest_block > 0\<close>, and 100 when
  it is 0.
\<close>

theorem sync_progress_by_design:
  "sync_progress (get_node_sync_status nt svc url answers metrics el) =
     (if highest_block (get_node_sync_status nt svc url answers metrics el) > 0
      then min 100 (real_of_int (current_block (get_node_sync_status nt svc url answers metrics el))
                     / real_of_int (highest_block (get_node_sync_status nt svc url answers metrics el))
                     * 100)
      else 0) \<and>
   (truthy url \<and> ans_syncing ans = SyncingFalse \<longrightarrow>
      sync_progress (get_node_sync_status nt ''active'' url (Some ans) metrics el) =
        (case ans_block_number ans of None \<Rightarrow> 0 | Some b \<Rightarrow> if b > 0 then 100 else 0)) \<and>
   (truthy url \<and> ans_syncing ans = SyncingObject cur high \<longrightarrow>
      sync_progress (get_node_sync_status nt ''active'' url (Some ans) metrics el) =
        (if high > 0 then min 100 (real_of_int cur / real_of_int high * 100) else 0)) \<and>
   rc_sync_progress (rpc_connectivity_check (ResultObject cur high)) =
     Some (if high > 0 then real_of_int cur / real_of_int high * 100 else 100)"
proof (intro conjI impI)
  show "sync_progress (get_node_sync_status nt svc url answers metrics el) =
     (if highest_block (get_node_sync_status nt svc url answers metrics el) > 0
      then min 100 (real_of_int (current_block (get_node_sync_status nt svc url answers metrics el))
                     / real_of_int (highest_block (get_node_sync_status nt svc url answers metrics el))
                     * 100)
      else 0)"
    by (rule get_node_sync_status_progress)
next
  assume a: "truthy url \<and> ans_syncing ans = SyncingFalse"
  then have u: "truthy url" by simp
  show "sync_progress (get_node_sync_status nt ''active'' url (Some ans) metrics el) =
        (case ans_block_number ans of None \<Rightarrow> 0 | Some b \<Rightarrow> if b > 0 then 100 else 0)"
    unfolding get_node_sync_status_progress get_node_sync_status_blocks [OF u, THEN conjunct1]
      get_node_sync_status_blocks [OF u, THEN conjunct2]
    using a by (simp add: get_rpc_sync_data_def split: option.splits)
next
  assume a: "truthy url \<and> ans_syncing ans = SyncingObject cur high"
  then have u: "truthy url" by simp
  show "sync_progress (get_node_sync_status nt ''active'' url (Some ans) metrics el) =
        (if high > 0 then min 100 (real_of_int cur / real_of_int high * 100) else 0)"
    unfolding get_node_sync_status_progress get_node_sync_status_blocks [OF u, THEN conjunct1]
      get_node_sync_status_blocks [OF u, THEN conjunct2]
    using a by (simp add: get_rpc_sync_data_def)
next
  show "rc_sync_progress (rpc_connectivity_check (ResultObject cur high)) =
     Some (if high > 0 then real_of_int cur / real_of_int high * 100 else 100)"
    by (simp add: rpc_connectivity_check_def)
qed

theorem sync_progress_by_design_witness:
  "truthy (Some ''http://127.0.0.1:8545'') \<and>
   ans_syncing (synced_at 19000000) = SyncingFalse \<and>
   sync_progress (get_node_sync_status ''geth'' ''active'' (Some ''http://127.0.0.1:8545'')
                    (Some (synced_at 19000000)) None 1) = 100 \<and>
   ans_syncing (syncing_at 50 200) = SyncingObject 50 200 \<and>
   sync_progress (get_node_sync_status ''geth'' ''active'' (Some ''http://127.0.0.1:8545'')
                    (Some (syncing_at 50 200)) None 1) = 25 \<and>
   sync_progress (get_node_sync_status ''geth'' ''active'' (Some ''http://127.0.0.1:8545'')
                    (Some (syncing_at 50 0)) None 1) = 0"
proof -
  let ?url = "Some ''http://127.0.0.1:8545''"
  have u: "truthy ?url" by simp
  have s: "ans_syncing (synced_at 19000000) = SyncingFalse"
    by (simp add: synced_at_def synced_no_block_def)
  have o: "ans_syncing (syncing_at 50 200) = SyncingObject 50 200"
    by (simp add: syncing_at_def synced_no_block_def)
  have z: "ans_syncing (syncing_at 50 0) = SyncingObject 50 0"
    by (simp add: syncing_at_def synced_no_block_def)
  note A = sync_progress_by_design
    [of "''geth''" "''active''" ?url "Some (synced_at 19000000)" None 1 "synced_at 19000000" 0 0,
     THEN conjunct2, THEN conjunct1, THEN mp, OF conjI [OF u s]]
  note B = sync_progress_by_design
    [of "''geth''" "''active''" ?url "Some (syncing_at 50 200)" None 1 "syncing_at 50 200" 50 200,
     THEN conjunct2, THEN conjunct2, THEN conjunct1, THEN mp, OF conjI [OF u o]]
  note C = sync_progress_by_design
    [of "''geth''" "''active''" ?url "Some (syncing_at 50 0)" None 1 "syncing_at 50 0" 50 0,
     THEN conjunct2, THEN conjunct2, THEN conjunct1, THEN mp, OF conjI [OF u z]]
  have A': "sync_progress (get_node_sync_status ''geth'' ''active'' ?url
                    (Some (synced_at 19000000)) None 1) = 100"
    unfolding A by (simp add: synced_at_def synced_no_block_def)
  have B': "sync_progress (get_node_sync_status ''geth'' ''active'' ?url
                    (Some (syncing_at 50 200)) None 1) = 25"
    unfolding B by simp
  have C': "sync_progress (get_node_sync_status ''geth'' ''active'' ?url
                    (Some (syncing_at 50 0)) None 1) = 0"
    unfolding C by simp
  show ?thesis by (intro conjI u s A' o B' C')
qed

end
